theory Spec2Isabelle
  imports Complex_Main "HOL-Library.Sublist"
begin

section \<open>Record model (types/JobApplication.ts)\<close>

text \<open>
  A JavaScript number that an integer-valued field can hold: an integer, or the
  \<open>NaN\<close> that \<open>parseInt\<close> returns for a string with no leading digits.
  Strict equality \<open>===\<close> never holds for \<open>NaN\<close>.
\<close>

datatype jsnum = Num int | NaN

fun js_strict_eq :: "jsnum \<Rightarrow> jsnum \<Rightarrow> bool" where
  "js_strict_eq (Num a) (Num b) = (a = b)"
| "js_strict_eq _ _ = False"

text \<open>
  \<open>enum ApplicationStatus\<close>: six members with the codes 1 to 6.  At run time a
  status is a number, so the fields below hold a \<open>jsnum\<close>.
\<close>

definition Applied :: jsnum where "Applied = Num 1"
definition UnderReview :: jsnum where "UnderReview = Num 2"
definition Interview :: jsnum where "Interview = Num 3"
definition Offer :: jsnum where "Offer = Num 4"
definition Rejected :: jsnum where "Rejected = Num 5"
definition Withdrawn :: jsnum where "Withdrawn = Num 6"

text \<open>
  \<open>CreateJobApplicationDto\<close>, \<open>UpdateJobApplicationDto\<close> and
  \<open>JobApplicationFormData\<close> are the same structural type: the four business
  fields.  \<open>JobApplication\<close> adds the server-assigned fields (the field \<open>id\<close>
  is called \<open>app_id\<close> here).
\<close>

record JobApplicationDto =
  company :: string
  position :: string
  status :: jsnum
  dateApplied :: string

type_synonym CreateJobApplicationDto = JobApplicationDto
type_synonym UpdateJobApplicationDto = JobApplicationDto
type_synonym JobApplicationFormData = JobApplicationDto

record JobApplication = JobApplicationDto +
  app_id :: int
  createdAt :: string
  updatedAt :: string

section \<open>List state and view derivation (components/JobApplicationTable.tsx)\<close>

text \<open>
  The component \<open>JobApplicationTable\<close>; in the source tree at hand its text
  follows the service in \<open>src/services/JobApplicationService.ts\<close>.

  The \<open>useState\<close> cells of the table component.  \<open>statusFilter\<close> is
  \<open>ApplicationStatus | ''\<close>: \<open>None\<close> stands for the empty string ("All
  Statuses"); \<open>applicationToDelete\<close> is \<open>None\<close> for \<open>null\<close>.
\<close>

record TableState =
  jobApplications :: "JobApplication list"
  loading :: bool
  error :: string
  currentPage :: int
  statusFilter :: "jsnum option"
  showDeleteModal :: bool
  applicationToDelete :: "JobApplication option"
  isDeleting :: bool

definition pageSize :: nat where
  "pageSize = 5"

text \<open>
  \<open>Array.prototype.slice(start, end)\<close>: a negative index counts from the end
  of the array, and both indices are clamped to \<open>0..length\<close>.
\<close>

definition js_slice :: "'a list \<Rightarrow> int \<Rightarrow> int \<Rightarrow> 'a list" where
  "js_slice xs start fin =
     (let len = int (length xs);
          k = (if start < 0 then max (len + start) 0 else min start len);
          final = (if fin < 0 then max (len + fin) 0 else min fin len)
      in take (nat (final - k)) (drop (nat k) xs))"

definition filteredApplications :: "TableState \<Rightarrow> JobApplication list" where
  "filteredApplications st =
     filter (\<lambda>app. case statusFilter st of
                      None \<Rightarrow> True
                    | Some f \<Rightarrow> js_strict_eq (status app) f)
            (jobApplications st)"

definition totalPages :: "TableState \<Rightarrow> int" where
  "totalPages st =
     \<lceil>real (length (filteredApplications st)) / real pageSize\<rceil>"

definition startIndex :: "TableState \<Rightarrow> int" where
  "startIndex st = (currentPage st - 1) * int pageSize"

definition endIndex :: "TableState \<Rightarrow> int" where
  "endIndex st = startIndex st + int pageSize"

definition currentApplications :: "TableState \<Rightarrow> JobApplication list" where
  "currentApplications st =
     js_slice (filteredApplications st) (startIndex st) (endIndex st)"

text \<open>
  The effect on \<open>updatedApplication\<close>: every element whose id equals the
  updated record's id is replaced by the updated record.
\<close>

definition applyUpdatedApplication ::
  "JobApplication option \<Rightarrow> TableState \<Rightarrow> TableState" where
  "applyUpdatedApplication updatedApplication st =
     (case updatedApplication of
        None \<Rightarrow> st
      | Some u \<Rightarrow>
          st\<lparr>jobApplications :=
               map (\<lambda>app. if app_id app = app_id u then u else app)
                   (jobApplications st)\<rparr>)"

section \<open>API client (services/JobApplicationService.ts)\<close>

text \<open>
  Template literals print a number in decimal: \<open>`${id}`\<close>, \<open>`${status}`\<close>.
\<close>

definition digit_char :: "nat \<Rightarrow> char" where
  "digit_char n = char_of (48 + n)"

fun show_nat :: "nat \<Rightarrow> string" where
  "show_nat n =
     (if n < 10 then [digit_char n]
      else show_nat (n div 10) @ [digit_char (n mod 10)])"

definition show_int :: "int \<Rightarrow> string" where
  "show_int i = (if i < 0 then CHR ''-'' # show_nat (nat (- i)) else show_nat (nat i))"

text \<open>
  The requests the service issues: method, URL and, for POST and PUT, the body.
\<close>

datatype request =
    GET string
  | POST string JobApplicationDto
  | PUT string JobApplicationDto
  | DELETE string

text \<open>
  The rejection axios hands to the response interceptor: \<open>error.response\<close> is
  set (with \<open>status\<close> and \<open>data?.message\<close>, \<open>None\<close> when the body carries no
  message), or only \<open>error.request\<close> is set, or neither (then \<open>error.message\<close>
  is read, \<open>None\<close> when it is \<open>undefined\<close>).
\<close>

datatype axios_error =
    HasResponse int "string option"
  | HasRequest
  | Neither "string option"

text \<open>
  The rejection handler of \<open>apiClient.interceptors.response\<close>: it throws an
  \<open>Error\<close>; the result is that error's \<open>message\<close>.  \<open>a || b\<close> takes \<open>b\<close>
  when \<open>a\<close> is \<open>undefined\<close> or the empty string.
\<close>

fun responseInterceptor :: "axios_error \<Rightarrow> string" where
  "responseInterceptor (HasResponse st msg) =
     ''HTTP '' @ show_int st @ '': '' @
       (case msg of
          None \<Rightarrow> ''Server error''
        | Some m \<Rightarrow> if m = [] then ''Server error'' else m)"
| "responseInterceptor HasRequest = ''Network error: No response from server''"
| "responseInterceptor (Neither msg) =
     ''Request error: '' @ (case msg of None \<Rightarrow> ''undefined'' | Some m \<Rightarrow> m)"

text \<open>
  Everything behind axios (adapter, network, remote API) is a parameter: for each
  response type the service expects, a function from the request and the state of
  the outside world to the outcome and the new state of the world.  A response
  carries data of the type the service declares for it.
\<close>

record 'w transport =
  send_list :: "request \<Rightarrow> 'w \<Rightarrow> (axios_error + JobApplication list) \<times> 'w"
  send_app :: "request \<Rightarrow> 'w \<Rightarrow> (axios_error + JobApplication) \<times> 'w"
  send_unit :: "request \<Rightarrow> 'w \<Rightarrow> (axios_error + unit) \<times> 'w"

text \<open>
  The state threaded through the client: the outside world and the requests
  attempted so far, oldest first.
\<close>

type_synonym 'w net = "'w \<times> request list"

text \<open>
  One call through \<open>apiClient\<close>: the request is attempted once; a rejection goes
  through the response interceptor and is thrown (\<open>Inl\<close>, the message of the
  \<open>Error\<close>), a response is returned as it is.
\<close>

definition apiClient ::
  "(request \<Rightarrow> 'w \<Rightarrow> (axios_error + 'a) \<times> 'w) \<Rightarrow> request \<Rightarrow> 'w net
     \<Rightarrow> (string + 'a) \<times> 'w net" where
  "apiClient adapter req n =
     (case adapter req (fst n) of
        (Inl e, w') \<Rightarrow> (Inl (responseInterceptor e), (w', snd n @ [req]))
      | (Inr d, w') \<Rightarrow> (Inr d, (w', snd n @ [req])))"

definition ENDPOINT :: string where
  "ENDPOINT = ''/jobapplications''"

text \<open>
  The methods of \<open>JobApplicationService\<close>.  Each \<open>catch\<close> block logs and
  rethrows, so an error passes through unchanged.
\<close>

definition getAll ::
  "'w transport \<Rightarrow> 'w net \<Rightarrow> (string + JobApplication list) \<times> 'w net" where
  "getAll T n = apiClient (send_list T) (GET ENDPOINT) n"

definition getById ::
  "'w transport \<Rightarrow> int \<Rightarrow> 'w net \<Rightarrow> (string + JobApplication) \<times> 'w net" where
  "getById T i n = apiClient (send_app T) (GET (ENDPOINT @ ''/'' @ show_int i)) n"

definition create ::
  "'w transport \<Rightarrow> CreateJobApplicationDto \<Rightarrow> 'w net
     \<Rightarrow> (string + JobApplication) \<times> 'w net" where
  "create T jobApplication n = apiClient (send_app T) (POST ENDPOINT jobApplication) n"

definition update ::
  "'w transport \<Rightarrow> int \<Rightarrow> UpdateJobApplicationDto \<Rightarrow> 'w net
     \<Rightarrow> (string + JobApplication) \<times> 'w net" where
  "update T i jobApplication n =
     apiClient (send_app T) (PUT (ENDPOINT @ ''/'' @ show_int i) jobApplication) n"

definition delete ::
  "'w transport \<Rightarrow> int \<Rightarrow> 'w net \<Rightarrow> (string + unit) \<times> 'w net" where
  "delete T i n = apiClient (send_unit T) (DELETE (ENDPOINT @ ''/'' @ show_int i)) n"

definition updateStatus ::
  "'w transport \<Rightarrow> int \<Rightarrow> jsnum \<Rightarrow> 'w net \<Rightarrow> (string + JobApplication) \<times> 'w net" where
  "updateStatus T i newStatus n =
     (case getById T i n of
        (Inl e, n1) \<Rightarrow> (Inl e, n1)
      | (Inr currentApp, n1) \<Rightarrow>
          update T i
            \<lparr>company = company currentApp,
             position = position currentApp,
             status = newStatus,
             dateApplied = dateApplied currentApp\<rparr> n1)"

subsection \<open>Handlers of the table that call the service\<close>

definition handleStatusChange ::
  "'w transport \<Rightarrow> int \<Rightarrow> jsnum \<Rightarrow> TableState \<times> 'w net \<Rightarrow> TableState \<times> 'w net" where
  "handleStatusChange T i newStatus sn =
     (case updateStatus T i newStatus (snd sn) of
        (Inr _, n') \<Rightarrow>
          ((fst sn)\<lparr>jobApplications :=
               map (\<lambda>app. if app_id app = i then app\<lparr>status := newStatus\<rparr> else app)
                   (jobApplications (fst sn))\<rparr>, n')
      | (Inl msg, n') \<Rightarrow>
          ((fst sn)\<lparr>error := ''Failed to update status: '' @ msg\<rparr>, n'))"

definition handleDelete :: "JobApplication \<Rightarrow> TableState \<Rightarrow> TableState" where
  "handleDelete app st = st\<lparr>applicationToDelete := Some app, showDeleteModal := True\<rparr>"

definition confirmDelete ::
  "'w transport \<Rightarrow> TableState \<times> 'w net \<Rightarrow> TableState \<times> 'w net" where
  "confirmDelete T sn =
     (case applicationToDelete (fst sn) of
        None \<Rightarrow> sn
      | Some target \<Rightarrow>
          (case delete T (app_id target) (snd sn) of
             (Inr _, n') \<Rightarrow>
               ((fst sn)\<lparr>isDeleting := True,
                  jobApplications :=
                    filter (\<lambda>app. app_id app \<noteq> app_id target) (jobApplications (fst sn)),
                  showDeleteModal := False,
                  applicationToDelete := None,
                  isDeleting := False\<rparr>, n')
           | (Inl msg, n') \<Rightarrow>
               ((fst sn)\<lparr>isDeleting := True,
                  error := ''Failed to delete application: '' @ msg,
                  isDeleting := False\<rparr>, n')))"

definition cancelDelete :: "TableState \<Rightarrow> TableState" where
  "cancelDelete st = st\<lparr>showDeleteModal := False, applicationToDelete := None\<rparr>"

section \<open>JavaScript built-ins the form uses\<close>

text \<open>
  A character of the model is a UTF-16 code unit below 256.  The white space that
  \<open>String.prototype.trim\<close> and \<open>parseInt\<close> skip is, in that range, TAB, LF, VT,
  FF, CR, SPACE and NO-BREAK SPACE.
\<close>

definition is_space :: "char \<Rightarrow> bool" where
  "is_space c = ((of_char c :: nat) \<in> {9, 10, 11, 12, 13, 32, 160})"

definition trim :: "string \<Rightarrow> string" where
  "trim s = rev (dropWhile is_space (rev (dropWhile is_space s)))"

definition is_digit :: "char \<Rightarrow> bool" where
  "is_digit c = (48 \<le> (of_char c :: nat) \<and> (of_char c :: nat) \<le> 57)"

text \<open>The value of a character as a digit of radix \<open>r\<close>, if it is one.\<close>

definition digit_value :: "nat \<Rightarrow> char \<Rightarrow> nat option" where
  "digit_value r c =
     (let k = (of_char c :: nat);
          v = (if 48 \<le> k \<and> k \<le> 57 then k - 48
               else if 97 \<le> k \<and> k \<le> 122 then k - 87
               else if 65 \<le> k \<and> k \<le> 90 then k - 55
               else r)
      in if v < r then Some v else None)"

definition digits_value :: "nat \<Rightarrow> string \<Rightarrow> nat" where
  "digits_value r ds = foldl (\<lambda>acc c. acc * r + (case digit_value r c of None \<Rightarrow> 0 | Some v \<Rightarrow> v)) 0 ds"

text \<open>
  \<open>parseInt(string)\<close> with no radix: skip leading white space, read a sign, read
  the prefix \<open>0x\<close> or \<open>0X\<close> as radix 16, then take the longest run of digits;
  \<open>NaN\<close> when that run is empty.
\<close>

definition parseInt :: "string \<Rightarrow> jsnum" where
  "parseInt s =
     (let S = dropWhile is_space s;
          neg = (take 1 S = ''-'');
          S1 = (if take 1 S = ''+'' \<or> take 1 S = ''-'' then drop 1 S else S);
          hex = (take 2 S1 = ''0x'' \<or> take 2 S1 = ''0X'');
          R = (if hex then 16 else 10);
          S2 = (if hex then drop 2 S1 else S1);
          Z = takeWhile (\<lambda>c. digit_value R c \<noteq> None) S2
      in if Z = [] then NaN
         else Num ((if neg then - 1 else 1) * int (digits_value R Z)))"

subsection \<open>Time values\<close>

text \<open>
  A \<open>Date\<close> holds a time value: milliseconds since 1970-01-01T00:00:00Z.  The
  functions below are ECMAScript's abstract operations on time values, on
  unbounded integers (the range limit of time values is not modelled).
\<close>

definition msPerDay :: int where
  "msPerDay = 86400000"

definition Day :: "int \<Rightarrow> int" where
  "Day t = t div msPerDay"

definition TimeWithinDay :: "int \<Rightarrow> int" where
  "TimeWithinDay t = t mod msPerDay"

text \<open>
  \<open>DaysInYear\<close> and \<open>DayFromYear\<close> are ECMAScript's.  \<open>YearFromTime(t)\<close> is the
  largest year whose first day is not after \<open>Day(t)\<close>; it is computed here from
  the mean length of a year, corrected by at most one year either way.
\<close>

definition DaysInYear :: "int \<Rightarrow> int" where
  "DaysInYear y =
     (if y mod 4 \<noteq> 0 then 365
      else if y mod 100 \<noteq> 0 then 366
      else if y mod 400 \<noteq> 0 then 365
      else 366)"

definition DayFromYear :: "int \<Rightarrow> int" where
  "DayFromYear y =
     365 * (y - 1970) + (y - 1969) div 4 - (y - 1901) div 100 + (y - 1601) div 400"

definition YearFromDay :: "int \<Rightarrow> int" where
  "YearFromDay d =
     (let y0 = 1970 + (400 * d) div 146097
      in if DayFromYear (y0 + 1) \<le> d then y0 + 1
         else if d < DayFromYear y0 then y0 - 1
         else y0)"

definition YearFromTime :: "int \<Rightarrow> int" where
  "YearFromTime t = YearFromDay (Day t)"

definition InLeapYear :: "int \<Rightarrow> int" where
  "InLeapYear t = (if DaysInYear (YearFromTime t) = 366 then 1 else 0)"

definition DayWithinYear :: "int \<Rightarrow> int" where
  "DayWithinYear t = Day t - DayFromYear (YearFromTime t)"

text \<open>
  The number of days of a year before its month \<open>m\<close>, months counted from 0,
  with \<open>leap\<close> 1 in a leap year and 0 otherwise.
\<close>

definition DaysBeforeMonth :: "int \<Rightarrow> int \<Rightarrow> int" where
  "DaysBeforeMonth leap m =
     (if m = 0 then 0
      else if m = 1 then 31
      else if m = 2 then 59 + leap
      else if m = 3 then 90 + leap
      else if m = 4 then 120 + leap
      else if m = 5 then 151 + leap
      else if m = 6 then 181 + leap
      else if m = 7 then 212 + leap
      else if m = 8 then 243 + leap
      else if m = 9 then 273 + leap
      else if m = 10 then 304 + leap
      else 334 + leap)"

text \<open>\<open>MonthFromTime\<close> counts months from 0, \<open>DateFromTime\<close> days from 1.\<close>

definition MonthFromTime :: "int \<Rightarrow> int" where
  "MonthFromTime t =
     (let d = DayWithinYear t; leap = InLeapYear t
      in if d < 31 then 0
         else if d < 59 + leap then 1
         else if d < 90 + leap then 2
         else if d < 120 + leap then 3
         else if d < 151 + leap then 4
         else if d < 181 + leap then 5
         else if d < 212 + leap then 6
         else if d < 243 + leap then 7
         else if d < 273 + leap then 8
         else if d < 304 + leap then 9
         else if d < 334 + leap then 10
         else 11)"

definition DateFromTime :: "int \<Rightarrow> int" where
  "DateFromTime t =
     DayWithinYear t - DaysBeforeMonth (InLeapYear t) (MonthFromTime t) + 1"

text \<open>
  \<open>MakeDay(year, month, date)\<close>: the day number of the first of the month, plus
  \<open>date - 1\<close>; a date past the end of the month runs into the next month.
\<close>

definition MakeDay :: "int \<Rightarrow> int \<Rightarrow> int \<Rightarrow> int" where
  "MakeDay year month date =
     (let ym = year + month div 12;
          mn = month mod 12
      in DayFromYear ym
           + DaysBeforeMonth (if DaysInYear ym = 366 then 1 else 0) mn
           + date - 1)"

definition MakeDate :: "int \<Rightarrow> int \<Rightarrow> int" where
  "MakeDate day time = day * msPerDay + time"

text \<open>
  What the JavaScript runtime of the page decides.  The local time zone is given
  as ECMAScript's \<open>LocalTZA\<close>: the offset from UTC, in milliseconds, in force at
  a UTC time value (\<open>offsetAtUTC\<close>) and at a local time value
  (\<open>offsetAtLocal\<close>); the two differ across a daylight-saving change.
  \<open>parseOther\<close> is what \<open>new Date(string)\<close> makes of a string that is not a
  valid date of the date-only form, which depends on the implementation.
\<close>

record runtime =
  offsetAtUTC :: "int \<Rightarrow> int"
  offsetAtLocal :: "int \<Rightarrow> int"
  parseOther :: "string \<Rightarrow> int option"

definition LocalTime :: "runtime \<Rightarrow> int \<Rightarrow> int" where
  "LocalTime rt t = t + offsetAtUTC rt t"

definition UTC :: "runtime \<Rightarrow> int \<Rightarrow> int" where
  "UTC rt t = t - offsetAtLocal rt t"

definition getFullYear :: "runtime \<Rightarrow> int \<Rightarrow> int" where
  "getFullYear rt t = YearFromTime (LocalTime rt t)"

definition setFullYear :: "runtime \<Rightarrow> int \<Rightarrow> int \<Rightarrow> int" where
  "setFullYear rt t year =
     (let lt = LocalTime rt t
      in UTC rt (MakeDate (MakeDay year (MonthFromTime lt) (DateFromTime lt))
                          (TimeWithinDay lt)))"



definition DaysInMonth :: "int \<Rightarrow> int \<Rightarrow> int" where
  "DaysInMonth y m =
     (if m = 2 then (if y mod 4 = 0 \<and> (y mod 100 \<noteq> 0 \<or> y mod 400 = 0) then 29 else 28)
      else if m = 4 \<or> m = 6 \<or> m = 9 \<or> m = 11 then 30
      else 31)"

text \<open>
  \<open>new Date(string)\<close>.  A valid date of the date-only form \<open>YYYY-MM-DD\<close> is read
  as midnight UTC of that date; this is the form a date control holds and the
  form \<open>toISOString().split('T')[0]\<close> produces.  Any other string is left to the
  runtime.  \<open>None\<close> is the invalid date, whose time value is \<open>NaN\<close>.
\<close>

definition Date_parse :: "runtime \<Rightarrow> string \<Rightarrow> int option" where
  "Date_parse rt s =
     (if length s = 10 \<and> s ! 4 = CHR ''-'' \<and> s ! 7 = CHR ''-''
         \<and> list_all is_digit (take 4 s)
         \<and> list_all is_digit (take 2 (drop 5 s))
         \<and> list_all is_digit (drop 8 s)
      then
        (let y = int (digits_value 10 (take 4 s));
             m = int (digits_value 10 (take 2 (drop 5 s)));
             d = int (digits_value 10 (drop 8 s))
         in if 1 \<le> m \<and> m \<le> 12 \<and> 1 \<le> d \<and> d \<le> DaysInMonth y m
            then Some (MakeDate (MakeDay y (m - 1) d) 0)
            else parseOther rt s)
      else parseOther rt s)"


text \<open>\<open>a > b\<close> and \<open>a < b\<close> on dates compare time values; with \<open>NaN\<close> both are false.\<close>

definition date_gt :: "int option \<Rightarrow> int \<Rightarrow> bool" where
  "date_gt a b = (case a of None \<Rightarrow> False | Some t \<Rightarrow> t > b)"

definition date_lt :: "int option \<Rightarrow> int \<Rightarrow> bool" where
  "date_lt a b = (case a of None \<Rightarrow> False | Some t \<Rightarrow> t < b)"

section \<open>Form state (components/JobApplicationForm.tsx)\<close>

text \<open>
  The component \<open>JobApplicationForm\<close> (\<open>unnamed/part_001\<close> in the source tree at
  hand).

  \<open>FormErrors\<close> is an object with optional string members, read and written by
  name: a map from member names to messages.
\<close>

type_synonym FormErrors = "string \<rightharpoonup> string"

record FormState =
  formData :: JobApplicationFormData
  errors :: FormErrors
  isSubmitting :: bool
  isEdit :: bool

text \<open>
  \<open>Object.values(ApplicationStatus)\<close> lists the member names and the six codes;
  only the codes can be equal to a number.
\<close>

definition ApplicationStatus_values :: "jsnum list" where
  "ApplicationStatus_values = [Applied, UnderReview, Interview, Offer, Rejected, Withdrawn]"

text \<open>
  \<open>validateForm\<close>, with the environment it reads as parameters: the runtime
  \<open>rt\<close> and the clock \<open>now\<close> (both \<open>new Date()\<close> of one pass read the same
  instant).  It returns its boolean and the state after \<open>setErrors(newErrors)\<close>.
\<close>

definition validateForm :: "runtime \<Rightarrow> int \<Rightarrow> FormState \<Rightarrow> bool \<times> FormState" where
  "validateForm rt now fs =
     (let f = formData fs;
          e0 = (Map.empty :: FormErrors);
          e1 = (if trim (company f) = [] then
                  e0(''company'' \<mapsto> ''Company name is required'')
                else if length (trim (company f)) > 200 then
                  e0(''company'' \<mapsto> ''Company name must be 200 characters or less'')
                else e0);
          e2 = (if trim (position f) = [] then
                  e1(''position'' \<mapsto> ''Position is required'')
                else if length (trim (position f)) > 200 then
                  e1(''position'' \<mapsto> ''Position must be 200 characters or less'')
                else e1);
          e3 = (if status f \<notin> set ApplicationStatus_values then
                  e2(''status'' \<mapsto> ''Please select a valid status'')
                else e2);
          e4 = (if dateApplied f = [] then
                  e3(''dateApplied'' \<mapsto> ''Date applied is required'')
                else
                  (let selectedDate = Date_parse rt (dateApplied f);
                       today = now;
                       oneYearAgo = setFullYear rt now (getFullYear rt today - 1)
                   in if date_gt selectedDate today then
                        e3(''dateApplied'' \<mapsto> ''Date applied cannot be in the future'')
                      else if date_lt selectedDate oneYearAgo then
                        e3(''dateApplied'' \<mapsto>
                             ''Date applied cannot be more than one year ago'')
                      else e3))
      in (dom e4 = {}, fs\<lparr>errors := e4\<rparr>))"

text \<open>
  \<open>handleInputChange\<close> for a change event with the given \<open>name\<close> and \<open>value\<close>.
  The controls of the form are named after the four fields; another name would
  set no field of \<open>JobApplicationFormData\<close>.  A member of \<open>errors\<close> is cleared
  when it holds a non-empty string.
\<close>

definition handleInputChange :: "string \<Rightarrow> string \<Rightarrow> FormState \<Rightarrow> FormState" where
  "handleInputChange name v fs =
     fs\<lparr>formData :=
          (if name = ''status'' then (formData fs)\<lparr>status := parseInt v\<rparr>
           else if name = ''company'' then (formData fs)\<lparr>company := v\<rparr>
           else if name = ''position'' then (formData fs)\<lparr>position := v\<rparr>
           else if name = ''dateApplied'' then (formData fs)\<lparr>dateApplied := v\<rparr>
           else formData fs),
        errors :=
          (case errors fs name of
             Some m \<Rightarrow> if m \<noteq> [] then (errors fs)(name := None) else errors fs
           | None \<Rightarrow> errors fs)\<rparr>"

section \<open>The error kinds of the interface\<close>

text \<open>
  The interface speaks of three error kinds.  \<open>spec_kind\<close> is the kind it assigns
  to each rejection, in its words: a response with an error status is a
  \<open>ServerError\<close> with the status code and the body's message, or a generic one
  when the body carries none; a request without response is a \<open>NetworkError\<close>;
  anything else is a \<open>ClientError\<close> with the message.  \<open>kind_message\<close> is the
  text under which the client throws each kind.
\<close>

datatype ApiError = ServerError int string | NetworkError | ClientError string

fun spec_kind :: "axios_error \<Rightarrow> ApiError" where
  "spec_kind (HasResponse st body) =
     ServerError st (case body of
                       None \<Rightarrow> ''Server error''
                     | Some m \<Rightarrow> if m = [] then ''Server error'' else m)"
| "spec_kind HasRequest = NetworkError"
| "spec_kind (Neither msg) =
     ClientError (case msg of None \<Rightarrow> ''undefined'' | Some m \<Rightarrow> m)"

fun kind_message :: "ApiError \<Rightarrow> string" where
  "kind_message (ServerError st m) = ''HTTP '' @ show_int st @ '': '' @ m"
| "kind_message NetworkError = ''Network error: No response from server''"
| "kind_message (ClientError m) = ''Request error: '' @ m"

text \<open>
  \<open>one_attempt adapter req n res\<close>: \<open>res\<close> is the outcome of attempting \<open>req\<close>
  exactly once from the state \<open>n\<close>: the response as it came, or the error of the
  rejection's kind, and in both cases one more request on record.
\<close>

definition one_attempt ::
  "(request \<Rightarrow> 'w \<Rightarrow> (axios_error + 'a) \<times> 'w) \<Rightarrow> request \<Rightarrow> 'w net
     \<Rightarrow> (string + 'a) \<times> 'w net \<Rightarrow> bool" where
  "one_attempt adapter req n res =
     (case adapter req (fst n) of
        (Inl e, w') \<Rightarrow> res = (Inl (kind_message (spec_kind e)), (w', snd n @ [req]))
      | (Inr d, w') \<Rightarrow> res = (Inr d, (w', snd n @ [req])))"

section \<open>Sample data\<close>

definition sample_app :: "int \<Rightarrow> jsnum \<Rightarrow> JobApplication" where
  "sample_app i s =
     \<lparr>company = ''Acme'', position = ''Engineer'', status = s,
      dateApplied = ''2024-01-15T00:00:00.000Z'',
      app_id = i,
      createdAt = ''2024-01-16T09:00:00.000Z'',
      updatedAt = ''2024-01-16T09:00:00.000Z''\<rparr>"

definition twelve_apps :: "JobApplication list" where
  "twelve_apps = map (\<lambda>i. sample_app i Applied) [1, 2, 3, 4, 5, 6, 7, 8, 9, 10, 11, 12]"

definition table_of :: "JobApplication list \<Rightarrow> TableState" where
  "table_of apps =
     \<lparr>jobApplications = apps, loading = False, error = [], currentPage = 1,
      statusFilter = None, showDeleteModal = False, applicationToDelete = None,
      isDeleting = False\<rparr>"

definition sample_form :: "string \<Rightarrow> FormState" where
  "sample_form date =
     \<lparr>formData = \<lparr>company = ''Acme'', position = ''Engineer'', status = Applied,
                  dateApplied = date\<rparr>,
      errors = Map.empty, isSubmitting = False, isEdit = False\<rparr>"

text \<open>
  Two runtimes.  In \<open>utc_runtime\<close> local time is UTC.  In \<open>eastern_runtime\<close> it
  is US Eastern time as in force in 2022 and 2023: four hours behind UTC from
  07:00 UTC on the second Sunday of March to 06:00 UTC on the first Sunday of
  November, five hours behind otherwise; a local time is read with the offset
  in force before a change until the change is over.  Both read any other
  string as the invalid date.
\<close>

definition utc_runtime :: runtime where
  "utc_runtime =
     \<lparr>offsetAtUTC = (\<lambda>t. 0), offsetAtLocal = (\<lambda>t. 0), parseOther = (\<lambda>s. None)\<rparr>"


text \<open>
  A remote API that keeps the records in a list and answers as the interface
  describes, and one that never answers.
\<close>

definition stored_at :: "string \<Rightarrow> JobApplication list \<Rightarrow> JobApplication option" where
  "stored_at url w = find (\<lambda>a. ENDPOINT @ ''/'' @ show_int (app_id a) = url) w"

definition memory_transport :: "JobApplication list transport" where
  "memory_transport =
     \<lparr>send_list = (\<lambda>req w. case req of
          GET url \<Rightarrow> (Inr w, w)
        | _ \<Rightarrow> (Inl (HasResponse 405 None), w)),
      send_app = (\<lambda>req w. case req of
          GET url \<Rightarrow>
            (case stored_at url w of
               Some a \<Rightarrow> (Inr a, w)
             | None \<Rightarrow> (Inl (HasResponse 404 None), w))
        | PUT url dto \<Rightarrow>
            (case stored_at url w of
               Some a \<Rightarrow>
                 (let a' = a\<lparr>company := company dto, position := position dto,
                              status := status dto, dateApplied := dateApplied dto,
                              updatedAt := ''2024-02-01T08:30:00.000Z''\<rparr>
                  in (Inr a', map (\<lambda>b. if app_id b = app_id a then a' else b) w))
             | None \<Rightarrow> (Inl (HasResponse 404 None), w))
        | POST url dto \<Rightarrow>
            (let a = \<lparr>company = company dto, position = position dto,
                       status = status dto, dateApplied = dateApplied dto,
                       app_id = int (length w) + 1,
                       createdAt = ''2024-02-01T08:30:00.000Z'',
                       updatedAt = ''2024-02-01T08:30:00.000Z''\<rparr>
             in (Inr a, w @ [a]))
        | DELETE url \<Rightarrow> (Inl (HasResponse 405 None), w)),
      send_unit = (\<lambda>req w. case req of
          DELETE url \<Rightarrow>
            (case stored_at url w of
               Some a \<Rightarrow> (Inr (), filter (\<lambda>b. app_id b \<noteq> app_id a) w)
             | None \<Rightarrow> (Inl (HasResponse 404 (Some ''Application not found'')), w))
        | _ \<Rightarrow> (Inl (HasResponse 405 None), w))\<rparr>"

definition offline_transport :: "unit transport" where
  "offline_transport =
     \<lparr>send_list = (\<lambda>req w. (Inl HasRequest, w)),
      send_app = (\<lambda>req w. (Inl HasRequest, w)),
      send_unit = (\<lambda>req w. (Inl HasRequest, w))\<rparr>"

section \<open>Properties of the list view\<close>

lemma count_list_filter_if:
  "count_list (filter P xs) r = (if P r then count_list xs r else 0)"
  by (induction xs) auto

text \<open>
  C7.  Filtering by a status \<open>s\<close> keeps exactly the records whose status is \<open>s\<close>,
  in their original order: the filtered list is a subsequence of the
  authoritative list in which every record with that status occurs as often as
  before and no other record occurs.  With no filter selected the filtered list
  is the authoritative list.
\<close>

theorem filteredApplications_by_status:
  "filteredApplications (st\<lparr>statusFilter := Some (Num s)\<rparr>)
     = filter (\<lambda>r. status r = Num s) (jobApplications st)
   \<and> subseq (filteredApplications (st\<lparr>statusFilter := Some S\<rparr>)) (jobApplications st)
   \<and> (\<forall>r. count_list (filteredApplications (st\<lparr>statusFilter := Some S\<rparr>)) r
          = (if js_strict_eq (status r) S then count_list (jobApplications st) r else 0))
   \<and> filteredApplications (st\<lparr>statusFilter := None\<rparr>) = jobApplications st"
proof -
  have eq: "js_strict_eq x (Num s) = (x = Num s)" for x
    by (cases x) auto
  have a: "filteredApplications (st\<lparr>statusFilter := Some (Num s)\<rparr>)
     = filter (\<lambda>r. status r = Num s) (jobApplications st)"
    by (simp add: filteredApplications_def eq)
  have b: "subseq (filteredApplications (st\<lparr>statusFilter := Some S\<rparr>)) (jobApplications st)"
    by (simp add: filteredApplications_def)
  have c: "count_list (filteredApplications (st\<lparr>statusFilter := Some S\<rparr>)) r
          = (if js_strict_eq (status r) S then count_list (jobApplications st) r else 0)" for r
    by (simp add: filteredApplications_def count_list_filter_if)
  have d: "filteredApplications (st\<lparr>statusFilter := None\<rparr>) = jobApplications st"
    by (simp add: filteredApplications_def)
  from a b c d show ?thesis by blast
qed

theorem filteredApplications_by_status_witness:
  "filteredApplications
      ((table_of [sample_app 1 Applied, sample_app 2 Interview, sample_app 3 Applied])
         \<lparr>statusFilter := Some Applied\<rparr>)
     = [sample_app 1 Applied, sample_app 3 Applied]
   \<and> filteredApplications
      ((table_of [sample_app 1 Applied, sample_app 2 Interview, sample_app 3 Applied])
         \<lparr>statusFilter := None\<rparr>)
     = [sample_app 1 Applied, sample_app 2 Interview, sample_app 3 Applied]"
  using filteredApplications_by_status
          [where st = "table_of [sample_app 1 Applied, sample_app 2 Interview, sample_app 3 Applied]"
             and s = 1 and S = Applied]
  by (simp add: table_of_def sample_app_def Applied_def Interview_def)

lemma ceiling_div5: "\<lceil>real n / 5\<rceil> = (int n + 4) div 5"
proof (rule ceiling_unique)
  show "real_of_int ((int n + 4) div 5) - 1 < real n / 5"
  proof -
    have "5 * ((int n + 4) div 5) \<le> int n + 4" by simp
    hence "real_of_int (5 * ((int n + 4) div 5)) \<le> real_of_int (int n + 4)"
      by (simp only: of_int_le_iff)
    thus ?thesis by simp
  qed
  show "real n / 5 \<le> real_of_int ((int n + 4) div 5)"
  proof -
    have "int n \<le> 5 * ((int n + 4) div 5)" by presburger
    hence "real_of_int (int n) \<le> real_of_int (5 * ((int n + 4) div 5))"
      by (simp only: of_int_le_iff)
    thus ?thesis by simp
  qed
qed

lemma js_slice_page:
  assumes "0 \<le> k"
  shows "js_slice xs k (k + int p) = take p (drop (nat k) xs)"
proof (cases "k \<le> int (length xs)")
  case True
  with assms show ?thesis
    by (auto simp: js_slice_def Let_def min_def nat_add_distrib)
next
  case False
  with assms show ?thesis
    by (auto simp: js_slice_def Let_def min_def)
qed

text \<open>
  C6.  With \<open>N\<close> filtered records the page count is \<open>ceil(N/5)\<close>, that is
  \<open>(N + 4) div 5\<close>, and 0 for an empty filtered list; on page \<open>p \<ge> 1\<close> the visible
  records are the filtered records from index \<open>5 * (p - 1)\<close> up to, not including,
  index \<open>5 * p\<close>.
\<close>

theorem pagination_page_count_and_slice:
  assumes "1 \<le> currentPage st"
  shows "totalPages st = \<lceil>real (length (filteredApplications st)) / 5\<rceil>
       \<and> totalPages st = (int (length (filteredApplications st)) + 4) div 5
       \<and> currentApplications st
           = take 5 (drop (5 * nat (currentPage st - 1)) (filteredApplications st))
       \<and> (filteredApplications st = [] \<longrightarrow> totalPages st = 0)"
proof -
  have a: "totalPages st = \<lceil>real (length (filteredApplications st)) / 5\<rceil>"
    by (simp add: totalPages_def pageSize_def)
  have b: "totalPages st = (int (length (filteredApplications st)) + 4) div 5"
    using a ceiling_div5 by simp
  have "0 \<le> startIndex st" using assms by (simp add: startIndex_def)
  hence "currentApplications st
      = take 5 (drop (nat (startIndex st)) (filteredApplications st))"
    using js_slice_page [of "startIndex st" "filteredApplications st" 5]
    by (simp add: currentApplications_def endIndex_def pageSize_def)
  moreover have "nat (startIndex st) = 5 * nat (currentPage st - 1)"
    using assms by (simp add: startIndex_def pageSize_def nat_mult_distrib)
  ultimately have c: "currentApplications st
           = take 5 (drop (5 * nat (currentPage st - 1)) (filteredApplications st))"
    by simp
  have d: "filteredApplications st = [] \<longrightarrow> totalPages st = 0"
    using b by simp
  from a b c d show ?thesis by blast
qed

theorem pagination_page_count_and_slice_witness:
  "1 \<le> currentPage ((table_of twelve_apps)\<lparr>currentPage := 3\<rparr>)
   \<and> totalPages ((table_of twelve_apps)\<lparr>currentPage := 3\<rparr>) = 3
   \<and> currentApplications ((table_of twelve_apps)\<lparr>currentPage := 3\<rparr>)
       = [sample_app 11 Applied, sample_app 12 Applied]
   \<and> currentApplications ((table_of twelve_apps)\<lparr>currentPage := 1\<rparr>)
       = [sample_app 1 Applied, sample_app 2 Applied, sample_app 3 Applied,
          sample_app 4 Applied, sample_app 5 Applied]
   \<and> totalPages (table_of []) = 0"
proof -
  have f: "filteredApplications ((table_of apps)\<lparr>currentPage := p\<rparr>) = apps" for apps p
    by (simp add: filteredApplications_def table_of_def)
  have f0: "filteredApplications (table_of apps) = apps" for apps
    by (simp add: filteredApplications_def table_of_def)
  have p3: "1 \<le> currentPage ((table_of twelve_apps)\<lparr>currentPage := 3\<rparr>)" by simp
  have p1: "1 \<le> currentPage ((table_of twelve_apps)\<lparr>currentPage := 1\<rparr>)" by simp
  have p0: "1 \<le> currentPage (table_of [])" by (simp add: table_of_def)
  show ?thesis
    using pagination_page_count_and_slice [OF p3] pagination_page_count_and_slice [OF p1]
          pagination_page_count_and_slice [OF p0]
    by (simp add: f f0 twelve_apps_def)
qed

text \<open>
  C9.  Merging an updated record whose id matches no element of the list leaves
  the whole table state, and so the list and its length, unchanged.
\<close>

theorem merge_of_unknown_id_is_identity:
  assumes "\<forall>app \<in> set (jobApplications st). app_id app \<noteq> app_id u"
  shows "applyUpdatedApplication (Some u) st = st"
proof -
  have "map (\<lambda>app. if app_id app = app_id u then u else app) (jobApplications st)
          = jobApplications st"
    using assms by (intro map_idI) auto
  thus ?thesis by (simp add: applyUpdatedApplication_def)
qed

theorem merge_of_unknown_id_is_identity_witness:
  "app_id (sample_app 7 Offer)
     \<notin> app_id ` set (jobApplications (table_of [sample_app 1 Applied, sample_app 2 Interview]))
   \<and> applyUpdatedApplication (Some (sample_app 7 Offer))
         (table_of [sample_app 1 Applied, sample_app 2 Interview])
       = table_of [sample_app 1 Applied, sample_app 2 Interview]"
proof -
  have h: "\<forall>app \<in> set (jobApplications (table_of [sample_app 1 Applied, sample_app 2 Interview])).
       app_id app \<noteq> app_id (sample_app 7 Offer)"
    by (simp add: table_of_def sample_app_def)
  have "app_id (sample_app 7 Offer)
     \<notin> app_id ` set (jobApplications (table_of [sample_app 1 Applied, sample_app 2 Interview]))"
    by (simp add: table_of_def sample_app_def)
  with merge_of_unknown_id_is_identity [OF h] show ?thesis by simp
qed

section \<open>Properties of the API client\<close>

lemma responseInterceptor_kind: "responseInterceptor e = kind_message (spec_kind e)"
  by (cases e) (auto split: option.splits)

lemma apiClient_one_attempt: "one_attempt adapter req n (apiClient adapter req n)"
  by (auto simp: one_attempt_def apiClient_def responseInterceptor_kind
           split: prod.splits sum.splits)

text \<open>
  C2.  When \<open>getById\<close> answers with a record, \<open>updateStatus\<close> is the \<open>update\<close>
  call, issued from the state \<open>getById\<close> left, whose DTO carries the fetched
  record's company, position and dateApplied and the new status; it returns what
  that call returns.  The requests on record are the GET, then the PUT with that
  DTO, and nothing else.
\<close>

theorem updateStatus_read_modify_write:
  assumes "getById T i n = (Inr cur, n1)"
  shows "let dto = \<lparr>company = company cur, position = position cur,
                    status = s, dateApplied = dateApplied cur\<rparr>;
             url = ENDPOINT @ ''/'' @ show_int i
         in updateStatus T i s n = update T i dto n1
          \<and> snd n1 = snd n @ [GET url]
          \<and> snd (snd (updateStatus T i s n)) = snd n @ [GET url, PUT url dto]
          \<and> (\<forall>r n2. update T i dto n1 = (Inr r, n2)
                \<longrightarrow> updateStatus T i s n = (Inr r, n2))"
proof -
  have log1: "snd n1 = snd n @ [GET (ENDPOINT @ ''/'' @ show_int i)]"
    using assms by (auto simp: getById_def apiClient_def split: prod.splits sum.splits)
  have rmw: "updateStatus T i s n
      = update T i \<lparr>company = company cur, position = position cur,
                    status = s, dateApplied = dateApplied cur\<rparr> n1"
    using assms by (simp add: updateStatus_def)
  have log2: "snd (snd (update T i dto n1)) = snd n1 @ [PUT (ENDPOINT @ ''/'' @ show_int i) dto]"
    for dto
    by (auto simp: update_def apiClient_def split: prod.splits sum.splits)
  show ?thesis
    unfolding Let_def using log1 rmw log2 by simp
qed

theorem updateStatus_read_modify_write_witness:
  "updateStatus memory_transport 2 Interview
       ([sample_app 1 Applied, sample_app 2 UnderReview], [])
     = (Inr ((sample_app 2 Interview)\<lparr>updatedAt := ''2024-02-01T08:30:00.000Z''\<rparr>),
        ([sample_app 1 Applied,
          (sample_app 2 Interview)\<lparr>updatedAt := ''2024-02-01T08:30:00.000Z''\<rparr>],
         [GET ''/jobapplications/2'',
          PUT ''/jobapplications/2''
            \<lparr>company = ''Acme'', position = ''Engineer'', status = Interview,
             dateApplied = ''2024-01-15T00:00:00.000Z''\<rparr>]))"
proof -
  have s1: "show_int 1 = ''1''" by code_simp
  have s2: "show_int 2 = ''2''" by code_simp
  note url = s1 s2 ENDPOINT_def
  have h: "getById memory_transport 2 ([sample_app 1 Applied, sample_app 2 UnderReview], [])
         = (Inr (sample_app 2 UnderReview),
            ([sample_app 1 Applied, sample_app 2 UnderReview], [GET ''/jobapplications/2'']))"
    by (simp add: getById_def apiClient_def memory_transport_def stored_at_def url
                  sample_app_def)
  show ?thesis
    using updateStatus_read_modify_write [OF h, of Interview]
    by (simp add: Let_def update_def apiClient_def memory_transport_def stored_at_def url
                  sample_app_def)
qed

text \<open>
  C8.  Each of the five operations attempts its request exactly once and, when
  the request is rejected, throws at once the error of the rejection's kind:
  \<open>ServerError\<close> with the status code and the body's message or the generic
  "Server error", \<open>NetworkError\<close>, or \<open>ClientError\<close> with the message.
  \<open>updateStatus\<close> passes on the error of its \<open>getById\<close> without a further request,
  and otherwise is one attempt of the PUT.  The texts of the three kinds are
  pairwise different, so a thrown error is of exactly one kind.
\<close>

theorem api_failures_normalised:
  "one_attempt (send_list T) (GET ENDPOINT) n (getAll T n)
   \<and> one_attempt (send_app T) (GET (ENDPOINT @ ''/'' @ show_int i)) n (getById T i n)
   \<and> one_attempt (send_app T) (POST ENDPOINT dto) n (create T dto n)
   \<and> one_attempt (send_app T) (PUT (ENDPOINT @ ''/'' @ show_int i) dto) n (update T i dto n)
   \<and> one_attempt (send_unit T) (DELETE (ENDPOINT @ ''/'' @ show_int i)) n (delete T i n)
   \<and> (case getById T i n of
         (Inl msg, n1) \<Rightarrow> updateStatus T i s n = (Inl msg, n1)
       | (Inr cur, n1) \<Rightarrow>
           one_attempt (send_app T)
             (PUT (ENDPOINT @ ''/'' @ show_int i)
                \<lparr>company = company cur, position = position cur,
                 status = s, dateApplied = dateApplied cur\<rparr>)
             n1 (updateStatus T i s n))
   \<and> kind_message (ServerError c m) \<noteq> kind_message NetworkError
   \<and> kind_message (ServerError c m) \<noteq> kind_message (ClientError m')
   \<and> kind_message NetworkError \<noteq> kind_message (ClientError m')"
proof -
  have upd: "case getById T i n of
         (Inl msg, n1) \<Rightarrow> updateStatus T i s n = (Inl msg, n1)
       | (Inr cur, n1) \<Rightarrow>
           one_attempt (send_app T)
             (PUT (ENDPOINT @ ''/'' @ show_int i)
                \<lparr>company = company cur, position = position cur,
                 status = s, dateApplied = dateApplied cur\<rparr>)
             n1 (updateStatus T i s n)"
    using apiClient_one_attempt [of "send_app T"]
    by (auto simp: updateStatus_def update_def split: prod.splits sum.splits)
  show ?thesis
    using upd by (simp add: getAll_def getById_def create_def update_def delete_def
                            apiClient_one_attempt)
qed

theorem api_failures_normalised_witness:
  "getById memory_transport 9 ([sample_app 1 Applied], [])
     = (Inl ''HTTP 404: Server error'', ([sample_app 1 Applied], [GET ''/jobapplications/9'']))
   \<and> delete offline_transport 3 ((), [])
     = (Inl ''Network error: No response from server'', ((), [DELETE ''/jobapplications/3'']))
   \<and> updateStatus offline_transport 3 Offer ((), [])
     = (Inl ''Network error: No response from server'', ((), [GET ''/jobapplications/3'']))"
proof -
  have s1: "show_int 1 = ''1''" by code_simp
  have s3: "show_int 3 = ''3''" by code_simp
  have s9: "show_int 9 = ''9''" by code_simp
  have s404: "show_int 404 = ''404''" by code_simp
  have a: "getById memory_transport 9 ([sample_app 1 Applied], [])
     = (Inl ''HTTP 404: Server error'', ([sample_app 1 Applied], [GET ''/jobapplications/9'']))"
    using api_failures_normalised
            [where T = memory_transport and i = 9 and n = "([sample_app 1 Applied], [])"]
    by (simp add: one_attempt_def memory_transport_def stored_at_def sample_app_def
                  ENDPOINT_def s1 s9 s404)
  have g: "getById offline_transport 3 ((), [])
     = (Inl ''Network error: No response from server'', ((), [GET ''/jobapplications/3'']))"
    using api_failures_normalised [where T = offline_transport and i = 3 and n = "((), [])"]
    by (simp add: one_attempt_def offline_transport_def ENDPOINT_def s3)
  have b: "delete offline_transport 3 ((), [])
     = (Inl ''Network error: No response from server'', ((), [DELETE ''/jobapplications/3'']))"
    using api_failures_normalised [where T = offline_transport and i = 3 and n = "((), [])"]
    by (simp add: one_attempt_def offline_transport_def ENDPOINT_def s3)
  have c: "updateStatus offline_transport 3 Offer ((), [])
     = (Inl ''Network error: No response from server'', ((), [GET ''/jobapplications/3'']))"
    using api_failures_normalised
            [where T = offline_transport and i = 3 and n = "((), [])" and s = Offer]
    by (simp add: g)
  from a b c show ?thesis by simp
qed

section \<open>Properties of the handlers of the table\<close>

lemma filter_removes_the_one:
  assumes "distinct (map f l)" and "x \<in> f ` set l"
  shows "\<exists>xs a ys. l = xs @ a # ys \<and> f a = x \<and> filter (\<lambda>b. f b \<noteq> x) l = xs @ ys"
proof -
  from assms(2) obtain a where a: "a \<in> set l" "f a = x" by auto
  then obtain xs ys where l: "l = xs @ a # ys" by (auto dest: split_list)
  from assms(1) l a have "\<forall>b \<in> set xs. f b \<noteq> x" "\<forall>b \<in> set ys. f b \<noteq> x"
    by (auto simp: image_iff)
  hence "filter (\<lambda>b. f b \<noteq> x) l = xs @ ys"
    using l a by simp
  with l a show ?thesis by blast
qed

text \<open>
  C3.  After a successful \<open>updateStatus\<close>, whatever record the server returned,
  the table state differs from the state before only in the list; the list keeps
  its length; at every index a record with the given id is the old record with
  the status field set to the newly selected status, and a record with another
  id is the old record.
\<close>

theorem inline_status_change_frame:
  assumes "updateStatus T i newStatus n = (Inr r, n')"
  shows "let st' = fst (handleStatusChange T i newStatus (st, n))
         in st' = st\<lparr>jobApplications := jobApplications st'\<rparr>
          \<and> length (jobApplications st') = length (jobApplications st)
          \<and> (\<forall>k < length (jobApplications st).
                jobApplications st' ! k =
                  (if app_id (jobApplications st ! k) = i
                   then (jobApplications st ! k)\<lparr>status := newStatus\<rparr>
                   else jobApplications st ! k))"
proof -
  have step: "fst (handleStatusChange T i newStatus (st, n))
      = st\<lparr>jobApplications :=
            map (\<lambda>app. if app_id app = i then app\<lparr>status := newStatus\<rparr> else app)
                (jobApplications st)\<rparr>"
    using assms by (simp add: handleStatusChange_def)
  show ?thesis
    unfolding Let_def step by simp
qed

theorem inline_status_change_frame_witness:
  "fst (handleStatusChange memory_transport 2 Interview
          (table_of [sample_app 1 Applied, sample_app 2 UnderReview],
           ([sample_app 1 Applied, sample_app 2 UnderReview], [])))
     = table_of [sample_app 1 Applied, sample_app 2 Interview]"
proof -
  have s1: "show_int 1 = ''1''" by code_simp
  have s2: "show_int 2 = ''2''" by code_simp
  let ?w = "[sample_app 1 Applied, sample_app 2 UnderReview]"
  let ?st = "table_of ?w"
  have h: "updateStatus memory_transport 2 Interview (?w, [])
     = (Inr ((sample_app 2 Interview)\<lparr>updatedAt := ''2024-02-01T08:30:00.000Z''\<rparr>),
        ([sample_app 1 Applied,
          (sample_app 2 Interview)\<lparr>updatedAt := ''2024-02-01T08:30:00.000Z''\<rparr>],
         [GET ''/jobapplications/2'',
          PUT ''/jobapplications/2''
            \<lparr>company = ''Acme'', position = ''Engineer'', status = Interview,
             dateApplied = ''2024-01-15T00:00:00.000Z''\<rparr>]))"
    by (simp add: updateStatus_def getById_def update_def apiClient_def memory_transport_def
                  stored_at_def ENDPOINT_def s1 s2 sample_app_def Let_def)
  let ?st' = "fst (handleStatusChange memory_transport 2 Interview (?st, (?w, [])))"
  from inline_status_change_frame [OF h, of ?st]
  have frame: "?st' = ?st\<lparr>jobApplications := jobApplications ?st'\<rparr>"
    and len: "length (jobApplications ?st') = length (jobApplications ?st)"
    and nth: "\<forall>k < length (jobApplications ?st).
                jobApplications ?st' ! k =
                  (if app_id (jobApplications ?st ! k) = 2
                   then (jobApplications ?st ! k)\<lparr>status := Interview\<rparr>
                   else jobApplications ?st ! k)"
    by (simp_all add: Let_def)
  have l2: "length (jobApplications ?st') = 2"
    using len by (simp add: table_of_def)
  have k0: "jobApplications ?st' ! 0 = sample_app 1 Applied"
    using nth by (simp add: table_of_def sample_app_def)
  have k1: "jobApplications ?st' ! 1 = sample_app 2 Interview"
    using nth by (simp add: table_of_def sample_app_def)
  have "jobApplications ?st' = [sample_app 1 Applied, sample_app 2 Interview]"
    using l2 k0 k1 by (auto simp: list_eq_iff_nth_eq less_Suc_eq numeral_2_eq_2)
  with frame show ?thesis
    by (simp add: table_of_def)
qed

text \<open>
  C5.  With a target staged, a failing delete call leaves the list, the modal flag
  and the staged target as they were and stores a non-empty error message; a
  succeeding one removes the records with the target's id and no other, closes
  the modal and clears the target.  When the ids of the list are distinct and
  the target's id is among them, exactly one record is removed.
\<close>

theorem confirmDelete_atomic:
  assumes "applicationToDelete st = Some target"
  shows "case delete T (app_id target) n of
           (Inl msg, n') \<Rightarrow>
             (let st' = fst (confirmDelete T (st, n))
              in jobApplications st' = jobApplications st
               \<and> error st' = ''Failed to delete application: '' @ msg
               \<and> error st' \<noteq> []
               \<and> showDeleteModal st' = showDeleteModal st
               \<and> applicationToDelete st' = Some target)
         | (Inr u, n') \<Rightarrow>
             (let st' = fst (confirmDelete T (st, n))
              in jobApplications st'
                   = filter (\<lambda>a. app_id a \<noteq> app_id target) (jobApplications st)
               \<and> \<not> showDeleteModal st'
               \<and> applicationToDelete st' = None
               \<and> error st' = error st
               \<and> (distinct (map app_id (jobApplications st))
                    \<and> app_id target \<in> app_id ` set (jobApplications st)
                  \<longrightarrow> (\<exists>xs a ys. jobApplications st = xs @ a # ys
                         \<and> app_id a = app_id target
                         \<and> jobApplications st' = xs @ ys)))"
proof -
  obtain res n' where Pair: "delete T (app_id target) n = (res, n')"
    by (cases "delete T (app_id target) n") auto
  show ?thesis
  proof (cases res)
    case (Inl msg)
    with Pair assms show ?thesis
      by (simp add: confirmDelete_def Let_def)
  next
    case (Inr u)
    with Pair assms show ?thesis
      using filter_removes_the_one [of app_id "jobApplications st" "app_id target"]
      by (simp add: confirmDelete_def Let_def)
  qed
qed

theorem confirmDelete_atomic_witness:
  "(let st' = fst (confirmDelete memory_transport
                     (handleDelete (sample_app 2 Offer)
                        (table_of [sample_app 1 Applied, sample_app 2 Offer]),
                      ([sample_app 1 Applied, sample_app 2 Offer], [])))
    in jobApplications st' = [sample_app 1 Applied]
     \<and> \<not> showDeleteModal st' \<and> applicationToDelete st' = None \<and> error st' = [])
   \<and> (let st' = fst (confirmDelete offline_transport
                     (handleDelete (sample_app 2 Offer)
                        (table_of [sample_app 1 Applied, sample_app 2 Offer]), ((), [])))
    in jobApplications st' = [sample_app 1 Applied, sample_app 2 Offer]
     \<and> error st' = ''Failed to delete application: Network error: No response from server''
     \<and> showDeleteModal st' \<and> applicationToDelete st' = Some (sample_app 2 Offer))"
proof -
  have s1: "show_int 1 = ''1''" by code_simp
  have s2: "show_int 2 = ''2''" by code_simp
  let ?st = "handleDelete (sample_app 2 Offer)
               (table_of [sample_app 1 Applied, sample_app 2 Offer])"
  have staged: "applicationToDelete ?st = Some (sample_app 2 Offer)"
    by (simp add: handleDelete_def)
  have ok: "delete memory_transport (app_id (sample_app 2 Offer))
               ([sample_app 1 Applied, sample_app 2 Offer], [])
             = (Inr (), ([sample_app 1 Applied], [DELETE ''/jobapplications/2'']))"
    by (simp add: delete_def apiClient_def memory_transport_def stored_at_def ENDPOINT_def
                  s1 s2 sample_app_def)
  have bad: "delete offline_transport (app_id (sample_app 2 Offer)) ((), [])
             = (Inl ''Network error: No response from server'',
                ((), [DELETE ''/jobapplications/2'']))"
    by (simp add: delete_def apiClient_def offline_transport_def ENDPOINT_def s2 sample_app_def)
  let ?a = "fst (confirmDelete memory_transport
                   (?st, ([sample_app 1 Applied, sample_app 2 Offer], [])))"
  let ?b = "fst (confirmDelete offline_transport (?st, ((), [])))"
  from confirmDelete_atomic [OF staged, of memory_transport
         "([sample_app 1 Applied, sample_app 2 Offer], [])"]
  have a: "jobApplications ?a = [sample_app 1 Applied]" "\<not> showDeleteModal ?a"
          "applicationToDelete ?a = None" "error ?a = []"
    unfolding ok by (simp_all add: Let_def handleDelete_def table_of_def sample_app_def)
  from confirmDelete_atomic [OF staged, of offline_transport "((), [])"]
  have b: "jobApplications ?b = [sample_app 1 Applied, sample_app 2 Offer]"
          "error ?b = ''Failed to delete application: Network error: No response from server''"
          "showDeleteModal ?b"
          "applicationToDelete ?b = Some (sample_app 2 Offer)"
    unfolding bad by (simp_all add: Let_def handleDelete_def table_of_def)
  from a b show ?thesis by (simp add: Let_def)
qed

section \<open>Properties of the form\<close>

subsection \<open>Dates\<close>











subsection \<open>One calendar year back\<close>

lemma div_step:
  fixes a :: int
  assumes "0 < n"
  shows "(a + 1) div n = a div n + (if (a + 1) mod n = 0 then 1 else 0)"
proof -
  have eq: "n * (a div n) + a mod n = a" by (rule mult_div_mod_eq)
  have r: "0 \<le> a mod n" "a mod n < n" using assms by simp_all
  show ?thesis
  proof (cases "a mod n = n - 1")
    case True
    have "n * (a div n + 1) = n * (a div n) + n" by (simp add: algebra_simps)
    with eq True have e: "a + 1 = n * (a div n + 1) + 0" by linarith
    have "(a + 1) div n = a div n + 1" "(a + 1) mod n = 0"
      using int_div_pos_eq [OF e] int_mod_pos_eq [OF e] assms by simp_all
    thus ?thesis by simp
  next
    case False
    with r have lt: "a mod n + 1 < n" by linarith
    from r have nn: "0 \<le> a mod n + 1" by linarith
    have e: "a + 1 = n * (a div n) + (a mod n + 1)" using eq by linarith
    have d: "(a + 1) div n = a div n"
      by (rule int_div_pos_eq [OF e nn lt])
    have m: "(a + 1) mod n = a mod n + 1"
      by (rule int_mod_pos_eq [OF e nn lt])
    have "a mod n + 1 \<noteq> 0" using r by linarith
    with d m show ?thesis by simp
  qed
qed

lemma mod_shift: "(k::int) mod n = 0 \<Longrightarrow> (y - k) mod n = y mod n"
  by (metis mod_diff_right_eq diff_zero)

lemma step4: "(y + 1 - 1969) div 4 = (y - 1969) div 4 + (if (y::int) mod 4 = 0 then 1 else 0)"
proof -
  have "(y - 1968) mod 4 = y mod 4" by (rule mod_shift) simp
  thus ?thesis using div_step [of 4 "y - 1969"] by (simp add: algebra_simps)
qed

lemma step100: "(y + 1 - 1901) div 100 = (y - 1901) div 100 + (if (y::int) mod 100 = 0 then 1 else 0)"
proof -
  have "(y - 1900) mod 100 = y mod 100" by (rule mod_shift) simp
  thus ?thesis using div_step [of 100 "y - 1901"] by (simp add: algebra_simps)
qed

lemma step400: "(y + 1 - 1601) div 400 = (y - 1601) div 400 + (if (y::int) mod 400 = 0 then 1 else 0)"
proof -
  have "(y - 1600) mod 400 = y mod 400" by (rule mod_shift) simp
  thus ?thesis using div_step [of 400 "y - 1601"] by (simp add: algebra_simps)
qed

lemma mod_100_4: "(y::int) mod 100 = 0 \<Longrightarrow> y mod 4 = 0"
proof -
  assume "y mod 100 = 0"
  hence "100 dvd y" by (simp add: dvd_eq_mod_eq_0)
  moreover have "(4::int) dvd 100" by simp
  ultimately have "4 dvd y" by (rule dvd_trans [rotated])
  thus ?thesis by (simp add: dvd_eq_mod_eq_0)
qed

lemma mod_400_100: "(y::int) mod 400 = 0 \<Longrightarrow> y mod 100 = 0"
proof -
  assume "y mod 400 = 0"
  hence "400 dvd y" by (simp add: dvd_eq_mod_eq_0)
  moreover have "(100::int) dvd 400" by simp
  ultimately have "100 dvd y" by (rule dvd_trans [rotated])
  thus ?thesis by (simp add: dvd_eq_mod_eq_0)
qed

lemma DayFromYear_Suc: "DayFromYear (y + 1) = DayFromYear y + DaysInYear y"
proof -
  have "DayFromYear (y + 1)
      = 365 * (y - 1970) + 365 + (y + 1 - 1969) div 4 - (y + 1 - 1901) div 100
          + (y + 1 - 1601) div 400"
    by (simp add: DayFromYear_def)
  also have "\<dots> = DayFromYear y + 365 + (if y mod 4 = 0 then 1 else 0)
                    - (if y mod 100 = 0 then 1 else 0) + (if y mod 400 = 0 then 1 else 0)"
    unfolding step4 step100 step400 by (simp add: DayFromYear_def)
  also have "\<dots> = DayFromYear y + DaysInYear y"
    using mod_100_4 [of y] mod_400_100 [of y] by (auto simp: DaysInYear_def)
  finally show ?thesis .
qed

lemma div_bounds:
  fixes a :: int
  assumes "0 < n"
  shows "n * (a div n) \<le> a" and "a < n * (a div n) + n"
proof -
  have eq: "n * (a div n) + a mod n = a" by (rule mult_div_mod_eq)
  have r: "0 \<le> a mod n" "a mod n < n" using assms by simp_all
  from eq r show "n * (a div n) \<le> a" by linarith
  from eq r show "a < n * (a div n) + n" by linarith
qed

lemma year_estimate_arith:
  fixes y A B C :: int
  assumes "4 * A \<le> y - 1969" "y - 1969 < 4 * A + 4"
      and "100 * B \<le> y - 1901" "y - 1901 < 100 * B + 100"
      and "400 * C \<le> y - 1601" "y - 1601 < 400 * C + 400"
  shows "146097 * (y - 1970) - 1000 < 400 * (365 * (y - 1970) + A - B + C)"
    and "400 * (365 * (y - 1970) + A - B + C) < 146097 * (y - 1970) + 1000"
proof -
  show "146097 * (y - 1970) - 1000 < 400 * (365 * (y - 1970) + A - B + C)"
    using assms by (simp add: algebra_simps)
  show "400 * (365 * (y - 1970) + A - B + C) < 146097 * (y - 1970) + 1000"
    using assms by (simp add: algebra_simps)
qed

lemma DayFromYear_estimate:
  "146097 * (y - 1970) - 1000 < 400 * DayFromYear y"
  "400 * DayFromYear y < 146097 * (y - 1970) + 1000"
proof -
  have a: "4 * ((y - 1969) div 4) \<le> y - 1969" "y - 1969 < 4 * ((y - 1969) div 4) + 4"
    by (rule div_bounds; simp)+
  have b: "100 * ((y - 1901) div 100) \<le> y - 1901"
          "y - 1901 < 100 * ((y - 1901) div 100) + 100"
    by (rule div_bounds; simp)+
  have c: "400 * ((y - 1601) div 400) \<le> y - 1601"
          "y - 1601 < 400 * ((y - 1601) div 400) + 400"
    by (rule div_bounds; simp)+
  show "146097 * (y - 1970) - 1000 < 400 * DayFromYear y"
    unfolding DayFromYear_def by (rule year_estimate_arith(1) [OF a b c])
  show "400 * DayFromYear y < 146097 * (y - 1970) + 1000"
    unfolding DayFromYear_def by (rule year_estimate_arith(2) [OF a b c])
qed

lemma year_search_arith:
  fixes d x L H :: int
  assumes "146097 * x \<le> 400 * d" "400 * d < 146097 * x + 146097"
      and "400 * L < 146097 * (x - 1) + 1000"
      and "146097 * (x + 2) - 1000 < 400 * H"
  shows "L \<le> d" and "d < H"
proof -
  show "L \<le> d" using assms by (simp add: algebra_simps)
  show "d < H" using assms by (simp add: algebra_simps)
qed

lemma YearFromDay_bounds:
  "DayFromYear (YearFromDay d) \<le> d" "d < DayFromYear (YearFromDay d + 1)"
proof -
  define x where "x = (400 * d) div 146097"
  define y0 where "y0 = 1970 + x"
  have x: "146097 * x \<le> 400 * d" "400 * d < 146097 * x + 146097"
    unfolding x_def by (rule div_bounds; simp)+
  have l: "400 * DayFromYear (y0 - 1) < 146097 * (x - 1) + 1000"
    using DayFromYear_estimate(2) [of "y0 - 1"] by (simp add: y0_def)
  have h: "146097 * (x + 2) - 1000 < 400 * DayFromYear (y0 + 2)"
    using DayFromYear_estimate(1) [of "y0 + 2"] by (simp add: y0_def)
  have lo: "DayFromYear (y0 - 1) \<le> d"
    by (rule year_search_arith(1) [OF x l h])
  have hi: "d < DayFromYear (y0 + 2)"
    by (rule year_search_arith(2) [OF x l h])
  have s1: "DayFromYear (y0 - 1 + 1) = DayFromYear y0" by simp
  have s2: "DayFromYear (y0 + 1 + 1) = DayFromYear (y0 + 2)" by (simp add: add.assoc)
  have def: "YearFromDay d =
      (if DayFromYear (y0 + 1) \<le> d then y0 + 1
       else if d < DayFromYear y0 then y0 - 1 else y0)"
    by (simp add: YearFromDay_def y0_def x_def Let_def)
  show "DayFromYear (YearFromDay d) \<le> d"
    unfolding def using lo by auto
  show "d < DayFromYear (YearFromDay d + 1)"
    unfolding def using hi s1 s2 by auto
qed



lemma DayWithinYear_range:
  "0 \<le> DayWithinYear t" "DayWithinYear t < DaysInYear (YearFromTime t)"
  using YearFromDay_bounds [of "Day t"] DayFromYear_Suc [of "YearFromTime t"]
  by (simp_all add: DayWithinYear_def YearFromTime_def)









subsection \<open>The entries of one validation pass\<close>

lemma validateForm_company:
  "errors (snd (validateForm rt now fs)) ''company''
     = (if trim (company (formData fs)) = [] then Some ''Company name is required''
        else if length (trim (company (formData fs))) > 200
        then Some ''Company name must be 200 characters or less''
        else None)"
  by (simp add: validateForm_def Let_def)

lemma validateForm_position:
  "errors (snd (validateForm rt now fs)) ''position''
     = (if trim (position (formData fs)) = [] then Some ''Position is required''
        else if length (trim (position (formData fs))) > 200
        then Some ''Position must be 200 characters or less''
        else None)"
  by (simp add: validateForm_def Let_def)

lemma validateForm_status:
  "errors (snd (validateForm rt now fs)) ''status''
     = (if status (formData fs) \<in> set ApplicationStatus_values then None
        else Some ''Please select a valid status'')"
  by (simp add: validateForm_def Let_def)

lemma validateForm_dateApplied:
  "errors (snd (validateForm rt now fs)) ''dateApplied''
     = (if dateApplied (formData fs) = [] then Some ''Date applied is required''
        else if date_gt (Date_parse rt (dateApplied (formData fs))) now
        then Some ''Date applied cannot be in the future''
        else if date_lt (Date_parse rt (dateApplied (formData fs)))
                        (setFullYear rt now (getFullYear rt now - 1))
        then Some ''Date applied cannot be more than one year ago''
        else None)"
  by (simp add: validateForm_def Let_def)

lemma validateForm_dom:
  "dom (errors (snd (validateForm rt now fs)))
     \<subseteq> {''company'', ''position'', ''status'', ''dateApplied''}"
  by (auto simp: validateForm_def Let_def split: if_splits)

lemma validateForm_fst:
  "fst (validateForm rt now fs) \<longleftrightarrow> dom (errors (snd (validateForm rt now fs))) = {}"
  by (simp add: validateForm_def Let_def)

subsection \<open>Validation\<close>

text \<open>
  C4.  One pass of \<open>validateForm\<close> decides each of the four fields from that
  field alone and records every violation: company and position are in error
  exactly when empty after trimming or longer than 200 after trimming, status
  exactly when it is none of the six codes, dateApplied by its own rule; the pass
  succeeds exactly when none of the four is in error.
\<close>

theorem validateForm_reports_all:
  "let r = validateForm rt now fs; e = errors (snd r); f = formData fs
   in e ''company''
        = (if trim (company f) = [] then Some ''Company name is required''
           else if length (trim (company f)) > 200
           then Some ''Company name must be 200 characters or less''
           else None)
    \<and> e ''position''
        = (if trim (position f) = [] then Some ''Position is required''
           else if length (trim (position f)) > 200
           then Some ''Position must be 200 characters or less''
           else None)
    \<and> e ''status''
        = (if status f \<in> {Num 1, Num 2, Num 3, Num 4, Num 5, Num 6} then None
           else Some ''Please select a valid status'')
    \<and> e ''dateApplied''
        = (if dateApplied f = [] then Some ''Date applied is required''
           else if date_gt (Date_parse rt (dateApplied f)) now
           then Some ''Date applied cannot be in the future''
           else if date_lt (Date_parse rt (dateApplied f))
                           (setFullYear rt now (getFullYear rt now - 1))
           then Some ''Date applied cannot be more than one year ago''
           else None)
    \<and> (fst r \<longleftrightarrow> e ''company'' = None \<and> e ''position'' = None
                  \<and> e ''status'' = None \<and> e ''dateApplied'' = None)"
proof -
  have st: "set ApplicationStatus_values = {Num 1, Num 2, Num 3, Num 4, Num 5, Num 6}"
    by (simp add: ApplicationStatus_values_def Applied_def UnderReview_def Interview_def
                  Offer_def Rejected_def Withdrawn_def)
  let ?e = "errors (snd (validateForm rt now fs))"
  have "dom ?e = {} \<longleftrightarrow> ?e ''company'' = None \<and> ?e ''position'' = None
                  \<and> ?e ''status'' = None \<and> ?e ''dateApplied'' = None"
    using validateForm_dom [of rt now fs] by (auto simp: dom_def)
  hence ok: "fst (validateForm rt now fs) \<longleftrightarrow> ?e ''company'' = None \<and> ?e ''position'' = None
                  \<and> ?e ''status'' = None \<and> ?e ''dateApplied'' = None"
    by (simp add: validateForm_fst)
  show ?thesis
    unfolding Let_def
    using validateForm_company [of rt now fs] validateForm_position [of rt now fs]
          validateForm_status [of rt now fs] validateForm_dateApplied [of rt now fs] ok
    by (simp add: st)
qed

theorem validateForm_reports_all_witness:
  "(let r = validateForm utc_runtime 1686830400000
              \<lparr>formData = \<lparr>company = ''  '', position = replicate 201 CHR ''x'',
                           status = Num 7, dateApplied = []\<rparr>,
               errors = Map.empty, isSubmitting = False, isEdit = False\<rparr>;
        e = errors (snd r)
    in e ''company'' = Some ''Company name is required''
     \<and> e ''position'' = Some ''Position must be 200 characters or less''
     \<and> e ''status'' = Some ''Please select a valid status''
     \<and> e ''dateApplied'' = Some ''Date applied is required''
     \<and> \<not> fst r)
   \<and> errors (snd (validateForm utc_runtime 1686830400000
         ((sample_form ''2023-06-01'')
            \<lparr>formData := \<lparr>company = replicate 201 CHR ''x'', position = ''Engineer'',
                           status = Applied, dateApplied = ''2023-06-01''\<rparr>\<rparr>))) ''company''
       = Some ''Company name must be 200 characters or less''"
proof -
  have sp: "is_space CHR '' ''" "\<not> is_space CHR ''x''" "\<not> is_space CHR ''r''"
           "\<not> is_space CHR ''E''"
    by (simp_all add: is_space_def)
  have t1: "trim ''  '' = []" by (simp add: trim_def sp)
  have t2: "trim (replicate 201 CHR ''x'') = replicate 201 CHR ''x''"
    by (simp add: trim_def sp)
  have t3: "trim ''Engineer'' = ''Engineer''" by (simp add: trim_def sp)
  show ?thesis
    using validateForm_reports_all
            [of utc_runtime 1686830400000
                "\<lparr>formData = \<lparr>company = ''  '', position = replicate 201 CHR ''x'',
                           status = Num 7, dateApplied = []\<rparr>,
                  errors = Map.empty, isSubmitting = False, isEdit = False\<rparr>"]
          validateForm_reports_all
            [of utc_runtime 1686830400000
                "(sample_form ''2023-06-01'')
                   \<lparr>formData := \<lparr>company = replicate 201 CHR ''x'', position = ''Engineer'',
                           status = Applied, dateApplied = ''2023-06-01''\<rparr>\<rparr>"]
    by (simp add: Let_def t1 t2 t3)
qed

text \<open>
  C10.  A change event for the control \<open>name\<close> leaves the error of every other
  member as it was and either keeps or clears the error of \<open>name\<close>; it sets the
  field \<open>name\<close> to the new value and leaves the other three fields and the flags
  of the form as they were.
\<close>

theorem handleInputChange_frame:
  "let fs' = handleInputChange name v fs
   in (\<forall>g. g \<noteq> name \<longrightarrow> errors fs' g = errors fs g)
    \<and> (errors fs' name = errors fs name \<or> errors fs' name = None)
    \<and> (name \<noteq> ''company'' \<longrightarrow> company (formData fs') = company (formData fs))
    \<and> (name \<noteq> ''position'' \<longrightarrow> position (formData fs') = position (formData fs))
    \<and> (name \<noteq> ''status'' \<longrightarrow> status (formData fs') = status (formData fs))
    \<and> (name \<noteq> ''dateApplied'' \<longrightarrow> dateApplied (formData fs') = dateApplied (formData fs))
    \<and> (name = ''company'' \<longrightarrow> company (formData fs') = v)
    \<and> (name = ''position'' \<longrightarrow> position (formData fs') = v)
    \<and> (name = ''status'' \<longrightarrow> status (formData fs') = parseInt v)
    \<and> (name = ''dateApplied'' \<longrightarrow> dateApplied (formData fs') = v)
    \<and> isSubmitting fs' = isSubmitting fs \<and> isEdit fs' = isEdit fs"
proof -
  let ?fs' = "handleInputChange name v fs"
  have others: "errors ?fs' g = errors fs g" if "g \<noteq> name" for g
    using that by (simp add: handleInputChange_def split: option.splits)
  have own: "errors ?fs' name = errors fs name \<or> errors ?fs' name = None"
    by (simp add: handleInputChange_def split: option.splits)
  have data: "formData ?fs'
      = (if name = ''status'' then (formData fs)\<lparr>status := parseInt v\<rparr>
         else if name = ''company'' then (formData fs)\<lparr>company := v\<rparr>
         else if name = ''position'' then (formData fs)\<lparr>position := v\<rparr>
         else if name = ''dateApplied'' then (formData fs)\<lparr>dateApplied := v\<rparr>
         else formData fs)"
    by (simp add: handleInputChange_def)
  have flags: "isSubmitting ?fs' = isSubmitting fs" "isEdit ?fs' = isEdit fs"
    by (simp_all add: handleInputChange_def)
  have fields:
    "name \<noteq> ''company'' \<longrightarrow> company (formData ?fs') = company (formData fs)"
    "name \<noteq> ''position'' \<longrightarrow> position (formData ?fs') = position (formData fs)"
    "name \<noteq> ''status'' \<longrightarrow> status (formData ?fs') = status (formData fs)"
    "name \<noteq> ''dateApplied'' \<longrightarrow> dateApplied (formData ?fs') = dateApplied (formData fs)"
    "name = ''company'' \<longrightarrow> company (formData ?fs') = v"
    "name = ''position'' \<longrightarrow> position (formData ?fs') = v"
    "name = ''status'' \<longrightarrow> status (formData ?fs') = parseInt v"
    "name = ''dateApplied'' \<longrightarrow> dateApplied (formData ?fs') = v"
    unfolding data by simp_all
  show ?thesis
    unfolding Let_def using others own fields flags by blast
qed

theorem handleInputChange_frame_witness:
  "(let fs' = handleInputChange ''company'' ''Initech''
                ((sample_form ''2024-01-15'')
                   \<lparr>errors := [''company'' \<mapsto> ''Company name is required'',
                                ''position'' \<mapsto> ''Position is required'']\<rparr>)
    in errors fs' ''company'' = None
     \<and> errors fs' ''position'' = Some ''Position is required''
     \<and> formData fs' = \<lparr>company = ''Initech'', position = ''Engineer'', status = Applied,
                        dateApplied = ''2024-01-15''\<rparr>)"
proof -
  let ?fs = "(sample_form ''2024-01-15'')
                   \<lparr>errors := [''company'' \<mapsto> ''Company name is required'',
                                ''position'' \<mapsto> ''Position is required'']\<rparr>"
  let ?fs' = "handleInputChange ''company'' ''Initech'' ?fs"
  from handleInputChange_frame [of "''company''" "''Initech''" ?fs]
  have other: "errors ?fs' ''position'' = errors ?fs ''position''"
    and fields: "company (formData ?fs') = ''Initech''"
                "position (formData ?fs') = position (formData ?fs)"
                "status (formData ?fs') = status (formData ?fs)"
                "dateApplied (formData ?fs') = dateApplied (formData ?fs)"
    by (simp_all add: Let_def)
  have cleared: "errors ?fs' ''company'' = None"
    by (simp add: handleInputChange_def)
  have "formData ?fs' = \<lparr>company = ''Initech'', position = ''Engineer'', status = Applied,
                        dateApplied = ''2024-01-15''\<rparr>"
    using fields by (cases "formData ?fs'") (simp add: sample_form_def)
  with other cleared show ?thesis
    by (simp add: Let_def)
qed




end
